theory Spec2Isabelle
  imports Main "HOL-Library.Word"
begin

section \<open>Python values, dictionaries and exceptions\<close>

text \<open>
  The module \<^verbatim>\<open>scodata/funcdata.py\<close> manipulates strings, property dictionaries,
  time stamps, the local file system and a MongoDB collection.  Strings are byte
  strings (\<^typ>\<open>string\<close>); a property value is one of the scalar Python values the
  module stores (\<^verbatim>\<open>None\<close>, a Boolean, an integer, a string).
\<close>

datatype pyval = VNone | VBool bool | VInt int | VStr string

text \<open>
  A Python \<^verbatim>\<open>dict\<close> with string keys: an association list in which every key
  occurs at most once when it is built with \<open>dict_set\<close>; \<open>map_of\<close> is the lookup.
\<close>

type_synonym pydict = "(string \<times> pyval) list"

fun dict_set :: "string \<Rightarrow> pyval \<Rightarrow> pydict \<Rightarrow> pydict" where
  "dict_set k v [] = [(k, v)]"
| "dict_set k v ((k', v') # d) =
     (if k = k' then (k, v) # d else (k', v') # dict_set k v d)"

text \<open>The \<^verbatim>\<open>errno\<close> values the file-system calls of the module can raise.\<close>

datatype errno = ENOENT | EEXIST | ENOTDIR | EISDIR

text \<open>
  Every exception the module can raise is a value: \<open>ValueError\<close> carries its message,
  \<open>KeyError\<close> the missing key, \<open>OSError\<close> the \<^verbatim>\<open>errno\<close> and the path,
  \<open>DuplicateKeyError\<close> the identifier that is already stored.  \<open>AttributeError\<close>
  is what \<^verbatim>\<open>os.path.join\<close> raises on a component that is not a string,
  \<open>TypeError\<close> what \<^verbatim>\<open>strptime\<close> raises on an argument that is not a string,
  \<open>SameFileError\<close> is \<^verbatim>\<open>shutil.Error\<close>.
\<close>

datatype error =
    ValueError string
  | KeyError string
  | AttributeError
  | TypeError
  | OSError errno string
  | SameFileError
  | DuplicateKeyError string

section \<open>String methods\<close>

definition startswith :: "string \<Rightarrow> string \<Rightarrow> bool" where
  "startswith s p = (take (length p) s = p)"

definition endswith :: "string \<Rightarrow> string \<Rightarrow> bool" where
  "endswith s p = (length p \<le> length s \<and> drop (length s - length p) s = p)"

text \<open>\<^verbatim>\<open>s.split(sep)\<close> for a separator of one character: never the empty list.\<close>

fun split :: "char \<Rightarrow> string \<Rightarrow> string list" where
  "split c [] = [[]]"
| "split c (x # xs) =
     (if x = c then [] # split c xs
      else (case split c xs of [] \<Rightarrow> [[x]] | y # ys \<Rightarrow> (x # y) # ys))"

text \<open>\<^verbatim>\<open>sep.join(xs)\<close>.\<close>

fun str_join :: "string \<Rightarrow> string list \<Rightarrow> string" where
  "str_join sep [] = []"
| "str_join sep [x] = x"
| "str_join sep (x # y # ys) = x @ sep @ str_join sep (y # ys)"

text \<open>\<^verbatim>\<open>s.rfind(c)\<close>: the index of the last occurrence of \<open>c\<close>, or \<open>-1\<close>.\<close>

definition rfind :: "string \<Rightarrow> char \<Rightarrow> int" where
  "rfind s c =
     (if c \<in> set s then int (length s - 1 - length (takeWhile (\<lambda>x. x \<noteq> c) (rev s)))
      else - 1)"

text \<open>\<^verbatim>\<open>s.replace(c, '')\<close> for a single character \<open>c\<close>.\<close>

definition replace_with_empty :: "string \<Rightarrow> char \<Rightarrow> string" where
  "replace_with_empty s c = filter (\<lambda>x. x \<noteq> c) s"

section \<open>\<^verbatim>\<open>os.path\<close> (posixpath)\<close>

text \<open>
  \<^verbatim>\<open>
  def join(a, *p):
      path = a
      for b in p:
          if b.startswith('/'):
              path = b
          elif path == '' or path.endswith('/'):
              path += b
          else:
              path += '/' + b
      return path
  \<close>
\<close>

definition path_join :: "string \<Rightarrow> string \<Rightarrow> string" where
  "path_join a b =
     (if startswith b ''/'' then b
      else if a = [] \<or> endswith a ''/'' then a @ b
      else a @ ''/'' @ b)"

text \<open>
  \<^verbatim>\<open>
  def basename(p):
      i = p.rfind('/') + 1
      return p[i:]
  \<close>
\<close>

definition basename :: "string \<Rightarrow> string" where
  "basename p = drop (nat (rfind p CHR ''/'' + 1)) p"

text \<open>
  One round of the loop of \<^verbatim>\<open>normpath\<close> over the components; \<open>ini\<close> says
  whether the path has initial slashes, \<open>c\<close> is the component \<^verbatim>\<open>comp\<close>:
  \<^verbatim>\<open>
      for comp in comps:
          if comp in ('', '.'):
              continue
          if (comp != '..' or (not initial_slashes and not new_comps) or
               (new_comps and new_comps[-1] == '..')):
              new_comps.append(comp)
          elif new_comps:
              new_comps.pop()
  \<close>
\<close>

definition normpath_step :: "bool \<Rightarrow> string list \<Rightarrow> string \<Rightarrow> string list" where
  "normpath_step ini new_comps c =
     (if c = [] \<or> c = ''.'' then new_comps
      else if c \<noteq> ''..'' \<or> (\<not> ini \<and> new_comps = [])
              \<or> (new_comps \<noteq> [] \<and> last new_comps = ''..'')
      then new_comps @ [c]
      else if new_comps \<noteq> [] then butlast new_comps
      else new_comps)"

definition initial_slashes :: "string \<Rightarrow> nat" where
  "initial_slashes path =
     (if startswith path ''/'' then
        (if startswith path ''//'' \<and> \<not> startswith path ''///'' then 2 else 1)
      else 0)"

definition normpath :: "string \<Rightarrow> string" where
  "normpath path =
     (if path = [] then ''.''
      else
        let ini = initial_slashes path;
            comps = foldl (normpath_step (ini \<noteq> 0)) [] (split CHR ''/'' path);
            p = replicate ini CHR ''/'' @ str_join ''/'' comps
        in if p = [] then ''.'' else p)"

section \<open>Time stamps\<close>

text \<open>A \<^verbatim>\<open>datetime.datetime\<close> without time zone.\<close>

record datetime =
  year :: nat
  month :: nat
  day :: nat
  hour :: nat
  minute :: nat
  second :: nat
  microsecond :: nat

definition is_leap :: "nat \<Rightarrow> bool" where
  "is_leap y = (y mod 4 = 0 \<and> (y mod 100 \<noteq> 0 \<or> y mod 400 = 0))"

definition days_in_month :: "nat \<Rightarrow> nat \<Rightarrow> nat" where
  "days_in_month y m =
     (if m = 2 then (if is_leap y then 29 else 28)
      else if m = 4 \<or> m = 6 \<or> m = 9 \<or> m = 11 then 30 else 31)"

text \<open>The range checks of the \<^verbatim>\<open>datetime\<close> constructor.\<close>

definition valid_datetime :: "datetime \<Rightarrow> bool" where
  "valid_datetime t =
     (1 \<le> year t \<and> year t \<le> 9999 \<and> 1 \<le> month t \<and> month t \<le> 12
      \<and> 1 \<le> day t \<and> day t \<le> days_in_month (year t) (month t)
      \<and> hour t < 24 \<and> minute t < 60 \<and> second t < 60 \<and> microsecond t < 1000000)"

section \<open>Decimal digits\<close>

definition digit_char :: "nat \<Rightarrow> char" where
  "digit_char d = char_of (48 + d)"

definition digit_val :: "char \<Rightarrow> nat" where
  "digit_val c = of_char c - 48"

text \<open>The decimal numeral of a natural number, as \<^verbatim>\<open>str(n)\<close> and \<^verbatim>\<open>'%d' % n\<close> write it.\<close>

fun show_nat :: "nat \<Rightarrow> string" where
  "show_nat n = (if n < 10 then [digit_char n] else show_nat (n div 10) @ [digit_char (n mod 10)])"

declare show_nat.simps [simp del]

text \<open>\<^verbatim>\<open>'%0wd' % n\<close>: padded with zeros on the left to width \<open>w\<close>, never truncated.\<close>

definition zero_pad :: "nat \<Rightarrow> nat \<Rightarrow> string" where
  "zero_pad w n = replicate (w - length (show_nat n)) CHR ''0'' @ show_nat n"

text \<open>
  \<^verbatim>\<open>int(s)\<close> on a string of decimal digits that may start with blanks (the only
  strings the time-stamp parser converts).
\<close>

definition py_int :: "string \<Rightarrow> nat" where
  "py_int s = foldl (\<lambda>a c. 10 * a + digit_val c) 0 (dropWhile (\<lambda>c. c = CHR '' '') s)"

section \<open>\<^verbatim>\<open>datetime.strptime\<close> for the format of the module\<close>

text \<open>
  \<^verbatim>\<open>strptime\<close> translates the format \<^verbatim>\<open>'%Y-%m-%dT%H:%M:%S.%f'\<close> into the
  regular expression
  \<^verbatim>\<open>(?P<Y>\d\d\d\d)-(?P<m>1[0-2]|0[1-9]|[1-9])-(?P<d>3[0-1]|[1-2]\d|0[1-9]|[1-9]| [1-9])T\<close>
  \<^verbatim>\<open>(?P<H>2[0-3]|[0-1]\d|\d):(?P<M>[0-5]\d|\d):(?P<S>6[0-1]|[0-5]\d|\d)\.(?P<f>[0-9]{1,6})\<close>,
  compiled with \<^verbatim>\<open>IGNORECASE\<close>, matches it at the start of the string, and refuses
  a match that does not reach the end of the string.  The expression is a sequence of
  groups; a group is a list of alternatives in the order the matcher tries them; an
  alternative is a sequence of character classes.
\<close>

datatype cclass = Lit char | Range char char

definition to_lower :: "char \<Rightarrow> char" where
  "to_lower c =
     (if (65::nat) \<le> of_char c \<and> of_char c \<le> (90::nat) then char_of (of_char c + (32::nat)) else c)"

text \<open>A literal matches without regard to case; the ranges used hold digits only.\<close>

fun cmatch :: "cclass \<Rightarrow> char \<Rightarrow> bool" where
  "cmatch (Lit x) c = (to_lower c = to_lower x)"
| "cmatch (Range lo hi) c = ((of_char lo :: nat) \<le> of_char c \<and> (of_char c :: nat) \<le> of_char hi)"

text \<open>One alternative against the start of the string: the text matched and the rest.\<close>

fun match_seq :: "cclass list \<Rightarrow> string \<Rightarrow> (string \<times> string) option" where
  "match_seq [] s = Some ([], s)"
| "match_seq (k # ks) [] = None"
| "match_seq (k # ks) (c # s) =
     (if cmatch k c then
        (case match_seq ks s of None \<Rightarrow> None | Some (m, r) \<Rightarrow> Some (c # m, r))
      else None)"

definition match_alts :: "cclass list list \<Rightarrow> string \<Rightarrow> (string \<times> string) list" where
  "match_alts alts s = List.map_filter (\<lambda>a. match_seq a s) alts"

text \<open>
  All matches of a sequence of groups at the start of the string, in the order a
  backtracking matcher finds them: the texts of the groups and the rest of the string.
  The head of the list is the match \<^verbatim>\<open>re.match\<close> returns.
\<close>

fun re_match :: "cclass list list list \<Rightarrow> string \<Rightarrow> (string list \<times> string) list" where
  "re_match [] s = [([], s)]"
| "re_match (g # gs) s =
     concat (map (\<lambda>(m, r). map (\<lambda>(ms, r'). (m # ms, r')) (re_match gs r)) (match_alts g s))"

abbreviation rx_digit :: cclass where
  "rx_digit \<equiv> Range CHR ''0'' CHR ''9''"

definition rx_Y :: "cclass list list" where
  "rx_Y = [[rx_digit, rx_digit, rx_digit, rx_digit]]"

definition rx_m :: "cclass list list" where
  "rx_m = [[Lit CHR ''1'', Range CHR ''0'' CHR ''2''], [Lit CHR ''0'', Range CHR ''1'' CHR ''9''],
           [Range CHR ''1'' CHR ''9'']]"

definition rx_d :: "cclass list list" where
  "rx_d = [[Lit CHR ''3'', Range CHR ''0'' CHR ''1''], [Range CHR ''1'' CHR ''2'', rx_digit],
           [Lit CHR ''0'', Range CHR ''1'' CHR ''9''], [Range CHR ''1'' CHR ''9''],
           [Lit CHR '' '', Range CHR ''1'' CHR ''9'']]"

definition rx_H :: "cclass list list" where
  "rx_H = [[Lit CHR ''2'', Range CHR ''0'' CHR ''3''], [Range CHR ''0'' CHR ''1'', rx_digit],
           [rx_digit]]"

definition rx_M :: "cclass list list" where
  "rx_M = [[Range CHR ''0'' CHR ''5'', rx_digit], [rx_digit]]"

definition rx_S :: "cclass list list" where
  "rx_S = [[Lit CHR ''6'', Range CHR ''0'' CHR ''1''], [Range CHR ''0'' CHR ''5'', rx_digit],
           [rx_digit]]"

text \<open>\<^verbatim>\<open>[0-9]{1,6}\<close> is greedy: six digits are tried first, one digit last.\<close>

definition rx_f :: "cclass list list" where
  "rx_f =
     [[rx_digit, rx_digit, rx_digit, rx_digit, rx_digit, rx_digit],
      [rx_digit, rx_digit, rx_digit, rx_digit, rx_digit],
      [rx_digit, rx_digit, rx_digit, rx_digit],
      [rx_digit, rx_digit, rx_digit],
      [rx_digit, rx_digit],
      [rx_digit]]"

definition rx_lit :: "char \<Rightarrow> cclass list list" where
  "rx_lit c = [[Lit c]]"

definition timestamp_regex :: "cclass list list list" where
  "timestamp_regex =
     [rx_Y, rx_lit CHR ''-'', rx_m, rx_lit CHR ''-'', rx_d, rx_lit CHR ''T'',
      rx_H, rx_lit CHR '':'', rx_M, rx_lit CHR '':'', rx_S, rx_lit CHR ''.'', rx_f]"

text \<open>
  \<^verbatim>\<open>datetime.datetime.strptime(s, '%Y-%m-%dT%H:%M:%S.%f')\<close>.  After the match the
  groups are converted with \<^verbatim>\<open>int\<close>, the fraction is padded with zeros on the right
  to six digits, and the \<^verbatim>\<open>date\<close> and \<^verbatim>\<open>datetime\<close> constructors check the
  ranges (year 0, a day the month does not have and a second of 60 or 61 are refused).
  Every failure is a \<^verbatim>\<open>ValueError\<close>.
\<close>

definition datetime_of_groups :: "string list \<Rightarrow> error + datetime" where
  "datetime_of_groups groups =
     (case groups of
        Y # _ # m # _ # d # _ # H # _ # M # _ # S # _ # f # _ \<Rightarrow>
          let t = \<lparr> year = py_int Y, month = py_int m, day = py_int d,
                    hour = py_int H, minute = py_int M, second = py_int S,
                    microsecond = py_int (f @ replicate (6 - length f) CHR ''0'') \<rparr>
          in if valid_datetime t then Inr t
             else Inl (ValueError ''value out of range'')
      | _ \<Rightarrow> Inl (ValueError ''time data does not match format''))"

definition strptime :: "string \<Rightarrow> error + datetime" where
  "strptime s =
     (case re_match timestamp_regex s of
        [] \<Rightarrow> Inl (ValueError ''time data does not match format'')
      | (groups, rest) # _ \<Rightarrow>
          if rest \<noteq> [] then Inl (ValueError ''unconverted data remains'')
          else datetime_of_groups groups)"

section \<open>Handles\<close>

text \<open>
  Modelled from the spec: the property names \<^verbatim>\<open>datastore.PROPERTY_*\<close> are constants
  of the module \<^verbatim>\<open>datastore\<close>, which is not among the sources.  The spec names the
  properties (name, filename, file size, MIME type, data-file reference, read-only
  flag) but not their strings, so the constants are a parameter of every function
  that reads them.
\<close>

record datastore_consts =
  PROPERTY_NAME :: string
  PROPERTY_FILENAME :: string
  PROPERTY_FILESIZE :: string
  PROPERTY_MIMETYPE :: string
  PROPERTY_FUNCDATAFILE :: string
  PROPERTY_READONLY :: string

definition DATA_DIRECTORY :: string where
  "DATA_DIRECTORY = ''data''"

definition UPLOAD_DIRECTORY :: string where
  "UPLOAD_DIRECTORY = ''upload''"

definition TYPE_FUNCDATA :: string where
  "TYPE_FUNCDATA = ''FUNCDATA''"

text \<open>The attributes the base class \<^verbatim>\<open>datastore.DataObjectHandle\<close> holds.\<close>

record DataObjectHandle =
  "identifier" :: string
  timestamp :: datetime
  properties :: pydict
  directory :: string
  is_active :: bool

record FunctionalDataHandle = DataObjectHandle +
  data_directory :: string
  data_file :: string

record FMRIDataHandle = FunctionalDataHandle +
  experiment_id :: string

text \<open>
  Modelled from the spec: the constructor of \<^verbatim>\<open>datastore.DataObjectHandle\<close> is not
  among the sources.  By the spec a handle holds the identifier, the properties, the
  directory and the active flag it is given, and its timestamp defaults to the current
  UTC time (\<open>utcnow\<close>, the reading of the clock).
\<close>

definition DataObjectHandle_init ::
  "datetime \<Rightarrow> string \<Rightarrow> datetime option \<Rightarrow> pydict \<Rightarrow> string \<Rightarrow> bool \<Rightarrow> DataObjectHandle" where
  "DataObjectHandle_init utcnow ident ts props dir act =
     \<lparr> identifier = ident,
       timestamp = (case ts of None \<Rightarrow> utcnow | Some t \<Rightarrow> t),
       properties = props,
       directory = dir,
       is_active = act \<rparr>"

text \<open>
  \<^verbatim>\<open>FunctionalDataHandle.__init__(identifier, properties, directory, timestamp, is_active)\<close>:
  the base constructor, then \<^verbatim>\<open>data_directory\<close> and \<^verbatim>\<open>data_file\<close>.
  \<^verbatim>\<open>self.properties[PROPERTY_FILENAME]\<close> raises \<^verbatim>\<open>KeyError\<close> on a missing key, and
  \<^verbatim>\<open>os.path.join\<close> raises on a file name that is not a string.
\<close>

definition FunctionalDataHandle_init ::
  "datastore_consts \<Rightarrow> datetime \<Rightarrow> string \<Rightarrow> pydict \<Rightarrow> string \<Rightarrow> datetime option \<Rightarrow> bool
     \<Rightarrow> error + FunctionalDataHandle" where
  "FunctionalDataHandle_init K utcnow ident props dir ts act =
     (let base = DataObjectHandle_init utcnow ident ts props dir act;
          ddir = path_join dir DATA_DIRECTORY
      in case map_of (properties base) (PROPERTY_FILENAME K) of
           None \<Rightarrow> Inl (KeyError (PROPERTY_FILENAME K))
         | Some (VStr fname) \<Rightarrow>
             Inr \<lparr> identifier = identifier base, timestamp = timestamp base,
                   properties = properties base, directory = directory base,
                   is_active = is_active base,
                   data_directory = ddir, data_file = path_join ddir fname \<rparr>
         | Some _ \<Rightarrow> Inl AttributeError)"

definition type_of_handle :: "FunctionalDataHandle \<Rightarrow> string" where
  "type_of_handle h = TYPE_FUNCDATA"

definition upload_file :: "FunctionalDataHandle \<Rightarrow> string" where
  "upload_file h = data_file h"

text \<open>
  \<^verbatim>\<open>FMRIDataHandle.__init__(func_data, experiment_id)\<close>: the constructor of
  \<^verbatim>\<open>FunctionalDataHandle\<close> on the attributes of \<open>func_data\<close>, then the experiment.
\<close>

definition FMRIDataHandle_init ::
  "datastore_consts \<Rightarrow> datetime \<Rightarrow> FunctionalDataHandle \<Rightarrow> string \<Rightarrow> error + FMRIDataHandle" where
  "FMRIDataHandle_init K utcnow func_data exp_id =
     (case FunctionalDataHandle_init K utcnow (identifier func_data) (properties func_data)
             (directory func_data) (Some (timestamp func_data)) (is_active func_data) of
        Inl e \<Rightarrow> Inl e
      | Inr h \<Rightarrow>
          Inr \<lparr> identifier = identifier h, timestamp = timestamp h,
                properties = properties h, directory = directory h,
                is_active = is_active h,
                data_directory = data_directory h, data_file = data_file h,
                experiment_id = exp_id \<rparr>)"

section \<open>Documents of the collection\<close>

text \<open>
  A document of the collection has the fields \<^verbatim>\<open>_id\<close>, \<^verbatim>\<open>active\<close>,
  \<^verbatim>\<open>timestamp\<close> and \<^verbatim>\<open>properties\<close>; a field that is absent is \<open>None\<close>.
  The identifier is converted with \<^verbatim>\<open>str\<close> and the timestamp is handed to
  \<^verbatim>\<open>strptime\<close>, so both are Python values of any scalar type.
\<close>

record document =
  doc_id :: "pyval option"
  doc_active :: "bool option"
  doc_timestamp :: "pyval option"
  doc_properties :: "pydict option"

text \<open>\<^verbatim>\<open>str(v)\<close>.\<close>

fun py_str :: "pyval \<Rightarrow> string" where
  "py_str (VStr s) = s"
| "py_str (VInt i) = (if i < 0 then CHR ''-'' # show_nat (nat (- i)) else show_nat (nat i))"
| "py_str (VBool b) = (if b then ''True'' else ''False'')"
| "py_str VNone = ''None''"

text \<open>
  Modelled from the spec: the document representation of a handle
  (\<^verbatim>\<open>to_dict\<close> of the base class \<^verbatim>\<open>datastore.DefaultObjectStore\<close>) is not among
  the sources.  By the spec the document holds \<^verbatim>\<open>_id\<close> (the identifier string),
  \<^verbatim>\<open>active\<close> (Boolean), \<^verbatim>\<open>timestamp\<close> (a string of the format
  \<^verbatim>\<open>YYYY-MM-DDTHH:MM:SS.ffffff\<close>) and \<^verbatim>\<open>properties\<close> (the mapping).
\<close>

definition format_timestamp :: "datetime \<Rightarrow> string" where
  "format_timestamp t =
     zero_pad 4 (year t) @ ''-'' @ zero_pad 2 (month t) @ ''-'' @ zero_pad 2 (day t) @ ''T''
     @ zero_pad 2 (hour t) @ '':'' @ zero_pad 2 (minute t) @ '':'' @ zero_pad 2 (second t)
     @ ''.'' @ zero_pad 6 (microsecond t)"

definition to_dict :: "FunctionalDataHandle \<Rightarrow> document" where
  "to_dict h =
     \<lparr> doc_id = Some (VStr (identifier h)),
       doc_active = Some (is_active h),
       doc_timestamp = Some (VStr (format_timestamp (timestamp h))),
       doc_properties = Some (properties h) \<rparr>"

section \<open>The file system and the store\<close>

text \<open>
  The state the manager works on: a POSIX file system without symbolic links and
  without permissions (a map from the list of components of an absolute path to a
  directory or to a regular file with its content; the root always is a directory),
  the working directory of the process, and the documents of the collection.
\<close>

datatype node = Dir | File string

record state =
  fs :: "string list \<Rightarrow> node option"
  cwd :: "string list"
  collection :: "document list"

definition lookup :: "state \<Rightarrow> string list \<Rightarrow> node option" where
  "lookup st p = (if p = [] then Some Dir else fs st p)"

text \<open>
  The components a path names: relative paths start at the working directory, empty
  components and \<^verbatim>\<open>.\<close> are skipped, \<^verbatim>\<open>..\<close> goes up (and stays at the root).
\<close>

definition resolve_step :: "string list \<Rightarrow> string \<Rightarrow> string list" where
  "resolve_step p c =
     (if c = [] \<or> c = ''.'' then p else if c = ''..'' then butlast p else p @ [c])"

definition resolve :: "state \<Rightarrow> string \<Rightarrow> string list" where
  "resolve st path =
     foldl resolve_step (if startswith path ''/'' then [] else cwd st) (split CHR ''/'' path)"

text \<open>A path that ends in a separator, in \<^verbatim>\<open>.\<close> or in \<^verbatim>\<open>..\<close> names a directory only.\<close>

definition needs_dir :: "string \<Rightarrow> bool" where
  "needs_dir path =
     (let l = last (split CHR ''/'' path) in path \<noteq> [] \<and> (l = [] \<or> l = ''.'' \<or> l = ''..''))"

text \<open>
  Walking down from \<open>cur\<close> along the components \<open>cs\<close>: every component on the way
  has to be a directory.
\<close>

fun walk :: "state \<Rightarrow> string list \<Rightarrow> string list \<Rightarrow> errno + node" where
  "walk st cur [] = (case lookup st cur of None \<Rightarrow> Inl ENOENT | Some n \<Rightarrow> Inr n)"
| "walk st cur (c # cs) =
     (case lookup st cur of
        None \<Rightarrow> Inl ENOENT
      | Some (File _) \<Rightarrow> Inl ENOTDIR
      | Some Dir \<Rightarrow> walk st (cur @ [c]) cs)"

definition stat :: "state \<Rightarrow> string \<Rightarrow> errno + node" where
  "stat st path =
     (if path = [] then Inl ENOENT
      else case walk st [] (resolve st path) of
        Inl e \<Rightarrow> Inl e
      | Inr (File d) \<Rightarrow> if needs_dir path then Inl ENOTDIR else Inr (File d)
      | Inr Dir \<Rightarrow> Inr Dir)"

text \<open>\<^verbatim>\<open>os.access(path, os.F_OK)\<close>: whether the path exists.\<close>

definition os_access_F_OK :: "state \<Rightarrow> string \<Rightarrow> bool" where
  "os_access_F_OK st path = (case stat st path of Inl _ \<Rightarrow> False | Inr _ \<Rightarrow> True)"

text \<open>
  \<^verbatim>\<open>os.mkdir(path)\<close>: the parent has to be a directory and the path must not exist.
\<close>

definition os_mkdir :: "state \<Rightarrow> string \<Rightarrow> error + state" where
  "os_mkdir st path =
     (let p = resolve st path in
      if path = [] then Inl (OSError ENOENT path)
      else if p = [] then Inl (OSError EEXIST path)
      else case walk st [] (butlast p) of
        Inl e \<Rightarrow> Inl (OSError e path)
      | Inr (File _) \<Rightarrow> Inl (OSError ENOTDIR path)
      | Inr Dir \<Rightarrow>
          (case lookup st p of
             Some _ \<Rightarrow> Inl (OSError EEXIST path)
           | None \<Rightarrow> Inr (st\<lparr> fs := (fs st)(p \<mapsto> Dir) \<rparr>)))"

text \<open>
  \<^verbatim>\<open>os.makedirs(path)\<close> creates the directories on the way that are missing and
  then the leaf; it fails when the leaf exists and when a component on the way is a
  regular file.  \<open>mkdirs st cur cs\<close> creates the components \<open>cs\<close> below \<open>cur\<close>.
\<close>

fun mkdirs :: "state \<Rightarrow> string list \<Rightarrow> string list \<Rightarrow> errno + state" where
  "mkdirs st cur [] = Inr st"
| "mkdirs st cur (c # cs) =
     (case lookup st (cur @ [c]) of
        None \<Rightarrow> mkdirs (st\<lparr> fs := (fs st)(cur @ [c] \<mapsto> Dir) \<rparr>) (cur @ [c]) cs
      | Some Dir \<Rightarrow> if cs = [] then Inl EEXIST else mkdirs st (cur @ [c]) cs
      | Some (File _) \<Rightarrow> Inl (if cs = [] then EEXIST else ENOTDIR))"

definition os_makedirs :: "state \<Rightarrow> string \<Rightarrow> error + state" where
  "os_makedirs st path =
     (let p = resolve st path in
      if path = [] then Inl (OSError ENOENT path)
      else if p = [] then Inl (OSError EEXIST path)
      else case mkdirs st [] p of
        Inl e \<Rightarrow> Inl (OSError e path)
      | Inr st' \<Rightarrow> Inr st')"

text \<open>
  \<^verbatim>\<open>shutil.copyfile(src, dst)\<close>: refuses to copy a file onto itself, opens \<open>src\<close>
  for reading and \<open>dst\<close> for writing (created or truncated) and copies the content.
\<close>

definition samefile :: "state \<Rightarrow> string \<Rightarrow> string \<Rightarrow> bool" where
  "samefile st src dst =
     (case (stat st src, stat st dst) of
        (Inr _, Inr _) \<Rightarrow> resolve st src = resolve st dst
      | _ \<Rightarrow> False)"

definition shutil_copyfile :: "state \<Rightarrow> string \<Rightarrow> string \<Rightarrow> error + state" where
  "shutil_copyfile st src dst =
     (if samefile st src dst then Inl SameFileError
      else case stat st src of
        Inl e \<Rightarrow> Inl (OSError e src)
      | Inr Dir \<Rightarrow> Inl (OSError EISDIR src)
      | Inr (File content) \<Rightarrow>
          (let p = resolve st dst in
           if dst = [] then Inl (OSError ENOENT dst)
           else if needs_dir dst \<or> p = [] then Inl (OSError EISDIR dst)
           else case walk st [] (butlast p) of
             Inl e \<Rightarrow> Inl (OSError e dst)
           | Inr (File _) \<Rightarrow> Inl (OSError ENOTDIR dst)
           | Inr Dir \<Rightarrow>
               (case lookup st p of
                  Some Dir \<Rightarrow> Inl (OSError EISDIR dst)
                | _ \<Rightarrow> Inr (st\<lparr> fs := (fs st)(p \<mapsto> File content) \<rparr>))))"

text \<open>
  \<^verbatim>\<open>os.path.getsize(path)\<close>: the number of bytes of a regular file.  The size of
  a directory depends on the file system and is not part of the state; the model
  gives 0 for it (the manager only asks for the size of the file it has just written).
\<close>

definition os_path_getsize :: "state \<Rightarrow> string \<Rightarrow> error + nat" where
  "os_path_getsize st path =
     (case stat st path of
        Inl e \<Rightarrow> Inl (OSError e path)
      | Inr Dir \<Rightarrow> Inr 0
      | Inr (File content) \<Rightarrow> Inr (length content))"

text \<open>
  Modelled from the spec: \<^verbatim>\<open>insert_object\<close> of the base class
  \<^verbatim>\<open>datastore.DefaultObjectStore\<close> is not among the sources.  By the spec it
  persists the document representation of the handle with insert semantics: it fails
  if the identifier is already present.
\<close>

definition insert_object :: "state \<Rightarrow> FunctionalDataHandle \<Rightarrow> error + state" where
  "insert_object st obj =
     (if Some (VStr (identifier obj)) \<in> set (map doc_id (collection st))
      then Inl (DuplicateKeyError (identifier obj))
      else Inr (st\<lparr> collection := collection st @ [to_dict obj] \<rparr>))"

section \<open>The manager\<close>

text \<open>
  Lines 199 to 206 of \<^verbatim>\<open>create_object\<close>: the MIME type of a file name, by its
  suffix, or the unsupported-file-type error.
\<close>

definition prop_mime_of :: "string \<Rightarrow> error + string" where
  "prop_mime_of prop_name =
     (if endswith prop_name ''.nii.gz'' \<or> endswith prop_name ''.mgz''
         \<or> endswith prop_name ''.mgh.gz''
      then Inr ''application/x-gzip''
      else if endswith prop_name ''.nii'' then Inr ''application/NIfTI-1''
      else if endswith prop_name ''.mgh'' then Inr ''application/MGH''
      else Inl (ValueError (''unsupported file type: '' @ prop_name)))"

text \<open>
  \<^verbatim>\<open>DefaultFunctionalDataManager.create_object(filename, read_only)\<close>.  \<open>base\<close> is
  \<^verbatim>\<open>self.directory\<close>, \<open>uuid4\<close> the string \<^verbatim>\<open>str(uuid.uuid4())\<close>, \<open>utcnow\<close> the
  reading of the clock.  The result is the handle or the exception, and the state the
  call leaves behind.
\<close>

definition create_object ::
  "datastore_consts \<Rightarrow> datetime \<Rightarrow> string \<Rightarrow> string \<Rightarrow> string \<Rightarrow> bool \<Rightarrow> state
     \<Rightarrow> (error + FunctionalDataHandle) \<times> state" where
  "create_object K utcnow uuid4 base filename read_only st =
     (let prop_name = basename (normpath filename) in
      case prop_mime_of prop_name of
        Inl e \<Rightarrow> (Inl e, st)
      | Inr prop_mime \<Rightarrow>
     (let ident = replace_with_empty uuid4 CHR ''-'';
          object_dir = path_join base ident in
      case (if \<not> os_access_F_OK st object_dir then os_makedirs st object_dir else Inr st) of
        Inl e \<Rightarrow> (Inl e, st)
      | Inr st1 \<Rightarrow>
     (let data_dir = path_join object_dir DATA_DIRECTORY in
      case os_mkdir st1 data_dir of
        Inl e \<Rightarrow> (Inl e, st1)
      | Inr st2 \<Rightarrow>
     (let func_data_file = prop_name;
          uploaded_file = path_join data_dir prop_name in
      case shutil_copyfile st2 filename uploaded_file of
        Inl e \<Rightarrow> (Inl e, st2)
      | Inr st3 \<Rightarrow>
     (case os_path_getsize st3 uploaded_file of
        Inl e \<Rightarrow> (Inl e, st3)
      | Inr filesize \<Rightarrow>
     (let props0 =
            dict_set (PROPERTY_FUNCDATAFILE K) (VStr func_data_file)
             (dict_set (PROPERTY_MIMETYPE K) (VStr prop_mime)
               (dict_set (PROPERTY_FILESIZE K) (VInt (int filesize))
                 (dict_set (PROPERTY_FILENAME K) (VStr prop_name)
                   (dict_set (PROPERTY_NAME K) (VStr prop_name) []))));
          props = (if read_only then dict_set (PROPERTY_READONLY K) (VBool True) props0
                   else props0) in
      case FunctionalDataHandle_init K utcnow ident props object_dir None True of
        Inl e \<Rightarrow> (Inl e, st3)
      | Inr obj \<Rightarrow>
     (case insert_object st3 obj of
        Inl e \<Rightarrow> (Inl e, st3)
      | Inr st4 \<Rightarrow> (Inr obj, st4))))))))"

text \<open>
  \<^verbatim>\<open>DefaultFunctionalDataManager.from_dict(document)\<close>; a missing field raises
  \<^verbatim>\<open>KeyError\<close>, in the order the source reads the fields.
\<close>

definition from_dict ::
  "datastore_consts \<Rightarrow> datetime \<Rightarrow> string \<Rightarrow> document \<Rightarrow> error + FunctionalDataHandle" where
  "from_dict K utcnow base doc =
     (case doc_id doc of
        None \<Rightarrow> Inl (KeyError ''_id'')
      | Some i \<Rightarrow>
     (let ident = py_str i in
      case doc_active doc of
        None \<Rightarrow> Inl (KeyError ''active'')
      | Some active \<Rightarrow>
     (let dir = path_join base ident in
      case doc_timestamp doc of
        None \<Rightarrow> Inl (KeyError ''timestamp'')
      | Some tv \<Rightarrow>
     (case (case tv of VStr s \<Rightarrow> strptime s | _ \<Rightarrow> Inl TypeError) of
        Inl e \<Rightarrow> Inl e
      | Inr ts \<Rightarrow>
     (case doc_properties doc of
        None \<Rightarrow> Inl (KeyError ''properties'')
      | Some props \<Rightarrow>
          FunctionalDataHandle_init K utcnow ident props dir (Some ts) active)))))"

section \<open>The handle constructors\<close>

lemma map_of_None_iff_not_key: "map_of d k = None \<longleftrightarrow> k \<notin> fst ` set d"
  by (simp add: map_of_eq_None_iff)

text \<open>
  Claim C8.  The constructor of \<^verbatim>\<open>FunctionalDataHandle\<close> fails whenever the
  properties do not contain the filename key, whatever the identifier, the directory,
  the timestamp and the active flag are: it raises \<^verbatim>\<open>KeyError\<close> for that key.
\<close>

theorem FunctionalDataHandle_init_no_filename:
  assumes "PROPERTY_FILENAME K \<notin> fst ` set props"
  shows "FunctionalDataHandle_init K utcnow ident props dir ts act
           = Inl (KeyError (PROPERTY_FILENAME K))"
proof -
  from assms have "map_of props (PROPERTY_FILENAME K) = None"
    by (simp add: map_of_None_iff_not_key)
  then show ?thesis
    by (simp add: FunctionalDataHandle_init_def DataObjectHandle_init_def)
qed

theorem FunctionalDataHandle_init_no_filename_witness:
  "''filename'' \<notin> fst ` set [(''name'', VStr ''scan.nii'')]
   \<and> FunctionalDataHandle_init
        \<lparr> PROPERTY_NAME = ''name'', PROPERTY_FILENAME = ''filename'',
          PROPERTY_FILESIZE = ''filesize'', PROPERTY_MIMETYPE = ''mimetype'',
          PROPERTY_FUNCDATAFILE = ''functionaldatafile'', PROPERTY_READONLY = ''readOnly'' \<rparr>
        \<lparr> year = 2020, month = 1, day = 1, hour = 0, minute = 0, second = 0, microsecond = 0 \<rparr>
        ''abc'' [(''name'', VStr ''scan.nii'')] ''/base/abc'' None True
      = Inl (KeyError ''filename'')"
  using FunctionalDataHandle_init_no_filename
    [of "\<lparr> PROPERTY_NAME = ''name'', PROPERTY_FILENAME = ''filename'',
          PROPERTY_FILESIZE = ''filesize'', PROPERTY_MIMETYPE = ''mimetype'',
          PROPERTY_FUNCDATAFILE = ''functionaldatafile'', PROPERTY_READONLY = ''readOnly'' \<rparr>"
        "[(''name'', VStr ''scan.nii'')]"
        "\<lparr> year = 2020, month = 1, day = 1, hour = 0, minute = 0, second = 0, microsecond = 0 \<rparr>"
        "''abc''" "''/base/abc''" None True]
  by simp

end
